theory Spec2Isabelle
  imports Main "HOL-Library.Word"
begin

unbundle bit_operations_syntax

section \<open>Shared data of the delegated routing HTTP core\<close>

text \<open>
  Go strings and byte slices are both sequences of bytes; both are \<open>string\<close> here.
  A Go \<open>error\<close> is represented by the text its \<open>Error()\<close> method returns, since the
  handlers only ever test it against \<open>nil\<close> and splice it into a message with \<open>%w\<close>.
\<close>

type_synonym bytes = string
type_synonym err = string

text \<open>
  \<open>iter.Result[T]\<close>: the item of a result sequence, a struct with the two fields
  \<open>Val\<close> and \<open>Err\<close>; the code reads \<open>Val\<close> only after it has checked \<open>Err\<close> for \<open>nil\<close>.
  A result sequence (\<open>iter.ResultIter\<close>) is the finite list of the items that
  \<open>Next\<close>/\<open>Val\<close> deliver until \<open>Next\<close> returns false.
\<close>

datatype 'a result = Result (Val: 'a) (Err: "err option")

text \<open>
  Modelled from the spec: the discovery record type \<open>types.Record\<close> and its concrete
  shapes (package \<open>routing/http/types\<close>) are not among the source files. The spec's data
  model: a polymorphic result variant tagged by a schema field; one concrete variant
  carries a peer identity and zero or more multiaddresses; records of any other shape
  are opaque payloads. The source shows that the schema is read through \<open>GetSchema\<close>,
  that the concrete shape is tested separately by a checked downcast to
  \<open>*types.PeerRecord\<close>, that the identity is held through a pointer (\<open>*result.ID\<close>) and
  that every address wraps a \<open>Multiaddr\<close> field.
\<close>

datatype types_Multiaddr = TypesMultiaddr (Multiaddr: string)

datatype record_t =
    PeerRecord (Schema: string) (ID: "string option") (Addrs: "types_Multiaddr list")
  | UnknownRecord (Schema: string) (Bytes: bytes)

definition SchemaPeer :: string where
  "SchemaPeer = ''peer''"

definition GetSchema :: "record_t \<Rightarrow> string" where
  "GetSchema v = Schema v"

section \<open>The content router adapter (contentrouter.go)\<close>

text \<open>\<open>peer.AddrInfo\<close>: a peer identity with its addresses.\<close>

datatype AddrInfo = AddrInfo (ai_ID: string) (ai_Addrs: "string list")

text \<open>
  What the worker does to the outside, in order: a value sent on the channel, the release
  of the result sequence, the closing of the channel, and the run-time panic of a nil
  pointer dereference. The channel is unbuffered; the trace is what a consumer that
  keeps receiving observes.
\<close>

datatype chan_event = Send AddrInfo | IterClose | ChanClose | Panic

text \<open>
  \<open>readProviderResponses\<close>. The two deferred calls run in reverse order of their
  \<open>defer\<close> statements when the function returns, and also while a panic unwinds:
  first \<open>iter.Close()\<close>, then \<open>close(ch)\<close>. An item with an error is logged and skipped
  (\<open>continue\<close>); a value whose schema is not the peer schema is skipped; a value with the
  peer schema that is not a \<open>*types.PeerRecord\<close> is logged and skipped.
\<close>

fun readProviderResponses :: "record_t result list \<Rightarrow> chan_event list" where
  "readProviderResponses [] = [IterClose, ChanClose]"
| "readProviderResponses (res # rest) =
     (if Err res \<noteq> None then readProviderResponses rest
      else
        (let v = Val res in
         if GetSchema v = SchemaPeer then
           (case v of
              PeerRecord s idp addrs \<Rightarrow>
                (case idp of
                   None \<Rightarrow> [IterClose, ChanClose, Panic]
                 | Some i \<Rightarrow> Send (AddrInfo i (map Multiaddr addrs)) # readProviderResponses rest)
            | UnknownRecord s b \<Rightarrow> readProviderResponses rest)
         else readProviderResponses rest))"

text \<open>
  The \<open>Client\<close> interface: \<open>FindProviders(ctx, key)\<close> takes the key and nothing else.
  The calls made on the client are logged.
\<close>

datatype 'c client_call = ClientFindProviders 'c

record 'c Client =
  client_FindProviders :: "'c \<Rightarrow> err + record_t result list"

text \<open>
  \<open>FindProvidersAsync\<close>: on a lookup failure the channel is made and closed at once;
  otherwise the worker is started on the result sequence. The result is the log of
  client calls and the trace of the channel.
\<close>

definition FindProvidersAsync ::
  "'c Client \<Rightarrow> 'c \<Rightarrow> int \<Rightarrow> 'c client_call list \<times> chan_event list" where
  "FindProvidersAsync c key numResults =
     (case client_FindProviders c key of
        Inl e \<Rightarrow> ([ClientFindProviders key], [ChanClose])
      | Inr resultsIter \<Rightarrow> ([ClientFindProviders key], readProviderResponses resultsIter))"

section \<open>The HTTP server (package server)\<close>

subsection \<open>Constants\<close>

definition mediaTypeJSON :: string where
  "mediaTypeJSON = ''application/json''"

definition mediaTypeNDJSON :: string where
  "mediaTypeNDJSON = ''application/x-ndjson''"

definition mediaTypeWildcard :: string where
  "mediaTypeWildcard = ''*/*''"

definition mediaTypeIPNSRecord :: string where
  "mediaTypeIPNSRecord = ''application/vnd.ipfs.ipns-record''"

definition DefaultRecordsLimit :: int where
  "DefaultRecordsLimit = 20"

definition DefaultStreamingRecordsLimit :: int where
  "DefaultStreamingRecordsLimit = 0"

definition StatusOK :: nat where "StatusOK = 200"
definition StatusBadRequest :: nat where "StatusBadRequest = 400"
definition StatusNotAcceptable :: nat where "StatusNotAcceptable = 406"
definition StatusInternalServerError :: nat where "StatusInternalServerError = 500"

subsection \<open>Library functions the handlers call\<close>

text \<open>
  \<open>strings.Contains\<close>: whether the second string occurs in the first as a contiguous
  run of bytes.
\<close>

fun HasPrefix :: "string \<Rightarrow> string \<Rightarrow> bool" where
  "HasPrefix s [] = True"
| "HasPrefix [] (p # ps) = False"
| "HasPrefix (c # cs) (p # ps) = (c = p \<and> HasPrefix cs ps)"

fun Contains :: "string \<Rightarrow> string \<Rightarrow> bool" where
  "Contains [] substr = HasPrefix [] substr"
| "Contains (c # cs) substr = (HasPrefix (c # cs) substr \<or> Contains cs substr)"

text \<open>
  \<open>strings.Split(s, sep)\<close> for a one-byte separator: the pieces between the separators,
  empty pieces included; a string without separator is its own single piece.
\<close>

fun Split :: "string \<Rightarrow> char \<Rightarrow> string list" where
  "Split [] sep = [[]]"
| "Split (c # cs) sep =
     (if c = sep then [] # Split cs sep
      else (case Split cs sep of
              [] \<Rightarrow> [[c]]
            | piece # pieces \<Rightarrow> (c # piece) # pieces))"

text \<open>
  Number formatting. \<open>strconv.FormatUint(x, base)\<close> writes the digits of \<open>x\<close> in the
  base, most significant first, lower-case letters for the digits from ten, \<open>0\<close> for
  zero; it panics for a base outside 2..36, which no call here passes (the result is
  then empty). The verb \<open>%d\<close> of package \<open>fmt\<close> writes a signed decimal.
\<close>

definition digits :: string where
  "digits = ''0123456789abcdefghijklmnopqrstuvwxyz''"

function formatBits :: "nat \<Rightarrow> nat \<Rightarrow> string" where
  "formatBits base u =
     (if base < 2 \<or> 36 < base then []
      else if base \<le> u then formatBits base (u div base) @ [digits ! (u mod base)]
      else [digits ! u])"
  by pat_completeness auto
termination
  by (relation "measure snd") auto

definition FormatUint :: "64 word \<Rightarrow> nat \<Rightarrow> string" where
  "FormatUint x base = formatBits base (unat x)"

definition fmt_d :: "int \<Rightarrow> string" where
  "fmt_d i = (if i < 0 then CHR ''-'' # formatBits 10 (nat (- i)) else formatBits 10 (nat i))"

subsection \<open>Requests and the response writer\<close>

text \<open>
  A request body is an \<open>io.Reader\<close>: the bytes it delivers and how it ends, with
  \<open>io.EOF\<close> (\<open>None\<close>) or with a read error.
\<close>

record Body =
  content :: bytes
  readErr :: "err option"

text \<open>
  \<open>io.ReadAll(io.LimitReader(body, n))\<close>. The limited reader hands out at most \<open>n\<close>
  bytes of the body and then reports \<open>io.EOF\<close> without reading the body again;
  \<open>io.ReadAll\<close> turns \<open>io.EOF\<close> into a nil error. So a read error of the body is seen
  only when the body ends before \<open>n\<close> bytes were delivered.
\<close>

definition ReadAllLimit :: "Body \<Rightarrow> nat \<Rightarrow> err + bytes" where
  "ReadAllLimit body n =
     (if n \<le> length (content body) then Inr (take n (content body))
      else (case readErr body of
              None \<Rightarrow> Inr (content body)
            | Some e \<Rightarrow> Inl e))"

text \<open>
  A request: its header (all values of a canonical header name, in order), the path
  variables that the router extracted, and the body.
\<close>

record Request =
  req_Header :: "string \<Rightarrow> string list"
  req_Vars :: "string \<Rightarrow> string"
  req_Body :: Body

definition Values :: "(string \<Rightarrow> string list) \<Rightarrow> string \<Rightarrow> string list" where
  "Values h key = h key"

definition Get :: "(string \<Rightarrow> string list) \<Rightarrow> string \<Rightarrow> string" where
  "Get h key = (case h key of [] \<Rightarrow> [] | v # vs \<Rightarrow> v)"

text \<open>
  The \<open>http.ResponseWriter\<close>: the header map, the status once it is committed (by
  \<open>WriteHeader\<close>, or as 200 by the first \<open>Write\<close>), the body bytes written, how many of
  them a \<open>Flush\<close> has pushed out, whether the writer is an \<open>http.Flusher\<close>, and how many
  more \<open>Write\<close> calls the connection accepts (\<open>None\<close>: every one).
\<close>

record ResponseWriter =
  rw_header :: "string \<Rightarrow> string list"
  rw_status :: "nat option"
  rw_body :: bytes
  rw_flushed :: nat
  rw_isFlusher :: bool
  rw_writable :: "nat option"

definition newResponseWriter :: "bool \<Rightarrow> nat option \<Rightarrow> ResponseWriter" where
  "newResponseWriter isFlusher writable =
     \<lparr>rw_header = (\<lambda>k. []), rw_status = None, rw_body = [], rw_flushed = 0,
      rw_isFlusher = isFlusher, rw_writable = writable\<rparr>"

definition Header_Set :: "string \<Rightarrow> string \<Rightarrow> ResponseWriter \<Rightarrow> ResponseWriter" where
  "Header_Set key v w = w\<lparr>rw_header := (rw_header w)(key := [v])\<rparr>"

definition Header_Add :: "string \<Rightarrow> string \<Rightarrow> ResponseWriter \<Rightarrow> ResponseWriter" where
  "Header_Add key v w = w\<lparr>rw_header := (rw_header w)(key := rw_header w key @ [v])\<rparr>"

text \<open>A second \<open>WriteHeader\<close> does not change the committed status.\<close>

definition WriteHeader :: "nat \<Rightarrow> ResponseWriter \<Rightarrow> ResponseWriter" where
  "WriteHeader statusCode w =
     (if rw_status w = None then w\<lparr>rw_status := Some statusCode\<rparr> else w)"

definition Write :: "bytes \<Rightarrow> ResponseWriter \<Rightarrow> ResponseWriter \<times> err option" where
  "Write b w =
     (let w1 = WriteHeader StatusOK w in
      case rw_writable w1 of
        None \<Rightarrow> (w1\<lparr>rw_body := rw_body w1 @ b\<rparr>, None)
      | Some 0 \<Rightarrow> (w1, Some ''write failed'')
      | Some (Suc n) \<Rightarrow> (w1\<lparr>rw_body := rw_body w1 @ b, rw_writable := Some n\<rparr>, None))"

definition Flush :: "ResponseWriter \<Rightarrow> ResponseWriter" where
  "Flush w =
     (if rw_isFlusher w
      then (let w1 = WriteHeader StatusOK w in w1\<lparr>rw_flushed := length (rw_body w1)\<rparr>)
      else w)"

text \<open>
  \<open>io.Copy(w, bytes.NewBuffer(b))\<close>: the buffer writes itself with one \<open>Write\<close>, and
  with none when it is empty.
\<close>

definition io_Copy :: "bytes \<Rightarrow> ResponseWriter \<Rightarrow> ResponseWriter \<times> err option" where
  "io_Copy b w = (if b = [] then (w, None) else Write b w)"

text \<open>
  The status the client sees: the committed one, and 200 when the handler returned
  without committing any.
\<close>

definition statusSent :: "ResponseWriter \<Rightarrow> nat" where
  "statusSent w = (case rw_status w of None \<Rightarrow> StatusOK | Some c \<Rightarrow> c)"

subsection \<open>Collaborators\<close>

text \<open>
  The value handed to \<open>drjson.MarshalJSONBytes\<close>: the bulk response
  \<open>jsontypes.ProvidersResponse\<close> with its one field \<open>Providers\<close> (a nil slice and an
  empty one are both the empty list here), or a single record.
\<close>

datatype json_any = ProvidersResponse (Providers: "record_t list") | RecordValue record_t

text \<open>
  The functions of other packages that the handlers call are parameters: the key
  decoder \<open>cid.Decode\<close>, the name codec and validator of package \<open>ipns\<close> with its
  constant \<open>MaxRecordSize\<close>, the record's \<open>TTL\<close> (given as the whole seconds that
  \<open>int(ttl.Seconds())\<close> evaluates to), the hash \<open>xxhash.Sum64\<close>, the media type parser
  \<open>mime.ParseMediaType\<close> (its media type result only; the handler drops the
  parameters) and the JSON marshaller. \<open>'c\<close> is the type of decoded keys, \<open>'n\<close> of
  names, \<open>'r\<close> of name records.
\<close>

record ('c, 'n, 'r) deps =
  cid_Decode :: "string \<Rightarrow> err + 'c"
  ipns_NameFromCid :: "'c \<Rightarrow> err + 'n"
  ipns_MaxRecordSize :: nat
  ipns_UnmarshalRecord :: "bytes \<Rightarrow> err + 'r"
  ipns_ValidateWithName :: "'r \<Rightarrow> 'n \<Rightarrow> err option"
  ipns_MarshalRecord :: "'r \<Rightarrow> err + bytes"
  record_TTL :: "'r \<Rightarrow> err + int"
  xxhash_Sum64 :: "bytes \<Rightarrow> 64 word"
  mime_ParseMediaType :: "string \<Rightarrow> err + string"
  drjson_MarshalJSONBytes :: "json_any \<Rightarrow> err + bytes"

text \<open>The backend interface \<open>ContentRouter\<close> and the log of the calls made on it.\<close>

record ('c, 'n, 'r) ContentRouter =
  FindProviders :: "'c \<Rightarrow> int \<Rightarrow> err + record_t result list"
  FindIPNSRecord :: "'n \<Rightarrow> err + 'r"
  ProvideIPNSRecord :: "'n \<Rightarrow> 'r \<Rightarrow> err option"

datatype ('c, 'n, 'r) backend_call =
    CallFindProviders 'c int
  | CallFindIPNSRecord 'n
  | CallProvideIPNSRecord 'n 'r

record ('c, 'n, 'r) server =
  svc :: "('c, 'n, 'r) ContentRouter"
  disableNDJSON :: bool
  recordsLimit :: int
  streamingRecordsLimit :: int

text \<open>
  The three options, and \<open>Handler\<close>'s construction of the server from them. The
  router that \<open>Handler\<close> returns sends a GET of the providers path to
  \<open>findProviders\<close>, a GET of the record path to \<open>getIPNSRecord\<close> and a PUT of it to
  \<open>putIPNSRecord\<close>, with the path variable \<open>cid\<close> extracted.
\<close>

definition WithStreamingResultsDisabled ::
  "('c, 'n, 'r) server \<Rightarrow> ('c, 'n, 'r) server" where
  "WithStreamingResultsDisabled s = s\<lparr>disableNDJSON := True\<rparr>"

definition WithRecordsLimit :: "int \<Rightarrow> ('c, 'n, 'r) server \<Rightarrow> ('c, 'n, 'r) server" where
  "WithRecordsLimit limit s = s\<lparr>recordsLimit := limit\<rparr>"

definition WithStreamingRecordsLimit ::
  "int \<Rightarrow> ('c, 'n, 'r) server \<Rightarrow> ('c, 'n, 'r) server" where
  "WithStreamingRecordsLimit limit s = s\<lparr>streamingRecordsLimit := limit\<rparr>"

definition Handler ::
  "('c, 'n, 'r) ContentRouter \<Rightarrow> (('c, 'n, 'r) server \<Rightarrow> ('c, 'n, 'r) server) list
     \<Rightarrow> ('c, 'n, 'r) server" where
  "Handler backend opts =
     fold (\<lambda>opt s. opt s) opts
       \<lparr>svc = backend, disableNDJSON = False, recordsLimit = DefaultRecordsLimit,
        streamingRecordsLimit = DefaultStreamingRecordsLimit\<rparr>"

subsection \<open>Response helpers\<close>

text \<open>
  \<open>writeErr\<close>: the status, then the cause cut to 1024 bytes; a failure of that write
  is logged and nothing more is done. The \<open>method\<close> argument of the helpers goes to
  the log only; the log is not part of the model.
\<close>

definition writeErr :: "ResponseWriter \<Rightarrow> nat \<Rightarrow> string \<Rightarrow> ResponseWriter" where
  "writeErr w statusCode cause =
     (let w1 = WriteHeader statusCode w;
          causeStr = (if length cause > 1024 then take 1024 cause else cause)
      in fst (Write causeStr w1))"

definition writeJSONResult ::
  "('c, 'n, 'r) deps \<Rightarrow> ResponseWriter \<Rightarrow> json_any \<Rightarrow> ResponseWriter" where
  "writeJSONResult d w val =
     (let w1 = Header_Add ''Content-Type'' mediaTypeJSON w in
      case drjson_MarshalJSONBytes d val of
        Inl e \<Rightarrow> writeErr w1 StatusInternalServerError (''marshaling response: '' @ e)
      | Inr b \<Rightarrow> fst (io_Copy b w1))"

subsection \<open>Provider discovery\<close>

text \<open>
  The loop of \<open>findProvidersJSON\<close>: \<open>providers\<close> and the counter \<open>i\<close> are the loop
  state; an item with an error ends the loop with the counter and the error.
\<close>

fun collectProviders ::
  "record_t result list \<Rightarrow> record_t list \<Rightarrow> nat \<Rightarrow> (nat \<times> err) + record_t list" where
  "collectProviders [] providers i = Inr providers"
| "collectProviders (res # rest) providers i =
     (case Err res of
        Some e \<Rightarrow> Inl (i, e)
      | None \<Rightarrow> collectProviders rest (providers @ [Val res]) (Suc i))"

definition findProvidersJSON ::
  "('c, 'n, 'r) deps \<Rightarrow> ResponseWriter \<Rightarrow> record_t result list \<Rightarrow> ResponseWriter" where
  "findProvidersJSON d w provIter =
     (case collectProviders provIter [] 0 of
        Inl (i, e) \<Rightarrow>
          writeErr w StatusInternalServerError
            (''delegate error on result '' @ fmt_d (int i) @ '': '' @ e)
      | Inr providers \<Rightarrow> writeJSONResult d w (ProvidersResponse providers))"

text \<open>
  The loop of \<open>findProvidersNDJSON\<close>: every exit but the end of the sequence is a
  silent \<open>return\<close> (after a log line): an item with an error, a record that does not
  marshal, a failed write of the record or of the line terminator.
\<close>

fun ndjsonLoop ::
  "('c, 'n, 'r) deps \<Rightarrow> ResponseWriter \<Rightarrow> record_t result list \<Rightarrow> ResponseWriter" where
  "ndjsonLoop d w [] = w"
| "ndjsonLoop d w (res # rest) =
     (case Err res of
        Some e \<Rightarrow> w
      | None \<Rightarrow>
          (case drjson_MarshalJSONBytes d (RecordValue (Val res)) of
             Inl e \<Rightarrow> w
           | Inr b \<Rightarrow>
               (case Write b w of
                  (w1, Some e) \<Rightarrow> w1
                | (w1, None) \<Rightarrow>
                    (case Write [CHR 0x0A] w1 of
                       (w2, Some e) \<Rightarrow> w2
                     | (w2, None) \<Rightarrow> ndjsonLoop d (Flush w2) rest))))"

definition findProvidersNDJSON ::
  "('c, 'n, 'r) deps \<Rightarrow> ResponseWriter \<Rightarrow> record_t result list \<Rightarrow> ResponseWriter" where
  "findProvidersNDJSON d w provIter =
     ndjsonLoop d (WriteHeader StatusOK (Header_Set ''Content-Type'' mediaTypeNDJSON w)) provIter"

text \<open>
  Content negotiation in \<open>findProviders\<close>: the inner loop over the media types of one
  \<open>Accept\<close> value, the outer loop over the values. The pair of flags is
  \<open>(supportsNDJSON, supportsJSON)\<close>; the first media type that does not parse ends
  both loops with its error.
\<close>

fun scanAccept ::
  "(string \<Rightarrow> err + string) \<Rightarrow> string list \<Rightarrow> bool \<times> bool \<Rightarrow> err + bool \<times> bool" where
  "scanAccept parse [] flags = Inr flags"
| "scanAccept parse (accept # rest) (supportsNDJSON, supportsJSON) =
     (case parse accept of
        Inl e \<Rightarrow> Inl e
      | Inr mediaType \<Rightarrow>
          scanAccept parse rest
            (if mediaType = mediaTypeJSON \<or> mediaType = mediaTypeWildcard
               then (supportsNDJSON, True)
             else if mediaType = mediaTypeNDJSON then (True, supportsJSON)
             else (supportsNDJSON, supportsJSON)))"

fun scanAcceptHeaders ::
  "(string \<Rightarrow> err + string) \<Rightarrow> string list \<Rightarrow> bool \<times> bool \<Rightarrow> err + bool \<times> bool" where
  "scanAcceptHeaders parse [] flags = Inr flags"
| "scanAcceptHeaders parse (acceptHeader # rest) flags =
     (case scanAccept parse (Split acceptHeader CHR '','') flags of
        Inl e \<Rightarrow> Inl e
      | Inr flags' \<Rightarrow> scanAcceptHeaders parse rest flags')"

datatype handlerFunc = HandlerJSON | HandlerNDJSON

text \<open>
  The outcome of the negotiation: the text of the client error, or the response
  strategy with the limit to ask the backend for.
\<close>

definition negotiate ::
  "('c, 'n, 'r) deps \<Rightarrow> ('c, 'n, 'r) server \<Rightarrow> string list \<Rightarrow> err + handlerFunc \<times> int" where
  "negotiate d s acceptHeaders =
     (if length acceptHeaders = 0 then Inr (HandlerJSON, recordsLimit s)
      else
        (case scanAcceptHeaders (mime_ParseMediaType d) acceptHeaders (False, False) of
           Inl e \<Rightarrow> Inl (''unable to parse Accept header: '' @ e)
         | Inr (supportsNDJSON, supportsJSON) \<Rightarrow>
             if supportsNDJSON \<and> \<not> disableNDJSON s
               then Inr (HandlerNDJSON, streamingRecordsLimit s)
             else if supportsJSON then Inr (HandlerJSON, recordsLimit s)
             else Inl ''no supported content types''))"

definition runHandler ::
  "handlerFunc \<Rightarrow> ('c, 'n, 'r) deps \<Rightarrow> ResponseWriter \<Rightarrow> record_t result list
     \<Rightarrow> ResponseWriter" where
  "runHandler h d w provIter =
     (case h of
        HandlerJSON \<Rightarrow> findProvidersJSON d w provIter
      | HandlerNDJSON \<Rightarrow> findProvidersNDJSON d w provIter)"

text \<open>
  Every handler returns the response writer as it leaves it and the calls it made on
  the backend, in order.
\<close>

definition findProviders ::
  "('c, 'n, 'r) deps \<Rightarrow> ('c, 'n, 'r) server \<Rightarrow> ResponseWriter \<Rightarrow> Request
     \<Rightarrow> ResponseWriter \<times> ('c, 'n, 'r) backend_call list" where
  "findProviders d s w httpReq =
     (case cid_Decode d (req_Vars httpReq ''cid'') of
        Inl e \<Rightarrow> (writeErr w StatusBadRequest (''unable to parse CID: '' @ e), [])
      | Inr c \<Rightarrow>
          (case negotiate d s (Values (req_Header httpReq) ''Accept'') of
             Inl msg \<Rightarrow> (writeErr w StatusBadRequest msg, [])
           | Inr (handler, limit) \<Rightarrow>
               (case FindProviders (svc s) c limit of
                  Inl e \<Rightarrow>
                    (writeErr w StatusInternalServerError (''delegate error: '' @ e),
                     [CallFindProviders c limit])
                | Inr provIter \<Rightarrow>
                    (runHandler handler d w provIter, [CallFindProviders c limit]))))"

subsection \<open>Name records\<close>

definition recordEtag :: "(bytes \<Rightarrow> 64 word) \<Rightarrow> bytes \<Rightarrow> string" where
  "recordEtag sum64 rawRecord = FormatUint (sum64 rawRecord) 32"

definition getIPNSRecord ::
  "('c, 'n, 'r) deps \<Rightarrow> ('c, 'n, 'r) server \<Rightarrow> ResponseWriter \<Rightarrow> Request
     \<Rightarrow> ResponseWriter \<times> ('c, 'n, 'r) backend_call list" where
  "getIPNSRecord d s w r =
     (if \<not> Contains (Get (req_Header r) ''Accept'') mediaTypeIPNSRecord then
        (writeErr w StatusNotAcceptable
           ''content type in 'Accept' header is missing or not supported'', [])
      else
        (case cid_Decode d (req_Vars r ''cid'') of
           Inl e \<Rightarrow> (writeErr w StatusBadRequest (''unable to parse CID: '' @ e), [])
         | Inr c \<Rightarrow>
        (case ipns_NameFromCid d c of
           Inl e \<Rightarrow> (writeErr w StatusBadRequest (''peer ID CID is not valid: '' @ e), [])
         | Inr name \<Rightarrow>
        (case FindIPNSRecord (svc s) name of
           Inl e \<Rightarrow>
             (writeErr w StatusInternalServerError (''delegate error: '' @ e),
              [CallFindIPNSRecord name])
         | Inr record \<Rightarrow>
        (case ipns_MarshalRecord d record of
           Inl e \<Rightarrow> (writeErr w StatusInternalServerError e, [CallFindIPNSRecord name])
         | Inr rawRecord \<Rightarrow>
             (let w1 = (case record_TTL d record of
                          Inr ttl \<Rightarrow> Header_Set ''Cache-Control'' (''max-age='' @ fmt_d ttl) w
                        | Inl e \<Rightarrow> Header_Set ''Cache-Control'' ''max-age=60'' w);
                  w2 = Header_Set ''Etag'' (recordEtag (xxhash_Sum64 d) rawRecord) w1;
                  w3 = Header_Set ''Content-Type'' mediaTypeIPNSRecord w2
              in (fst (Write rawRecord w3), [CallFindIPNSRecord name])))))))"

definition putIPNSRecord ::
  "('c, 'n, 'r) deps \<Rightarrow> ('c, 'n, 'r) server \<Rightarrow> ResponseWriter \<Rightarrow> Request
     \<Rightarrow> ResponseWriter \<times> ('c, 'n, 'r) backend_call list" where
  "putIPNSRecord d s w r =
     (if \<not> Contains (Get (req_Header r) ''Content-Type'') mediaTypeIPNSRecord then
        (writeErr w StatusNotAcceptable
           ''content type in 'Content-Type' header is missing or not supported'', [])
      else
        (case cid_Decode d (req_Vars r ''cid'') of
           Inl e \<Rightarrow> (writeErr w StatusBadRequest (''unable to parse CID: '' @ e), [])
         | Inr c \<Rightarrow>
        (case ipns_NameFromCid d c of
           Inl e \<Rightarrow> (writeErr w StatusBadRequest (''peer ID CID is not valid: '' @ e), [])
         | Inr name \<Rightarrow>
        (case ReadAllLimit (req_Body r) (ipns_MaxRecordSize d) of
           Inl e \<Rightarrow> (writeErr w StatusBadRequest (''provided record is too long: '' @ e), [])
         | Inr rawRecord \<Rightarrow>
        (case ipns_UnmarshalRecord d rawRecord of
           Inl e \<Rightarrow> (writeErr w StatusBadRequest (''provided record is invalid: '' @ e), [])
         | Inr record \<Rightarrow>
        (case ipns_ValidateWithName d record name of
           Some e \<Rightarrow> (writeErr w StatusBadRequest (''provided record is invalid: '' @ e), [])
         | None \<Rightarrow>
        (case ProvideIPNSRecord (svc s) name record of
           Some e \<Rightarrow>
             (writeErr w StatusInternalServerError (''delegate error: '' @ e),
              [CallProvideIPNSRecord name record])
         | None \<Rightarrow> (WriteHeader StatusOK w, [CallProvideIPNSRecord name record]))))))))"

section \<open>The hash behind the entity tag\<close>

text \<open>
  \<open>xxhash.Sum64\<close> is a parameter of the handlers. The function it stands for is fixed,
  though: the 64-bit xxHash (XXH64) with seed 0, on unsigned 64-bit arithmetic that wraps
  around. It is written out here to have the real hash at hand where a statement about
  entity tags needs concrete values: four accumulators over stripes of 32 bytes (for
  inputs of 32 bytes and more), the length, the remaining 8-byte words, a remaining
  4-byte word, the remaining bytes, and the final mixing. Words are read little-endian.
\<close>

definition prime1 :: "64 word" where "prime1 = 0x9E3779B185EBCA87"
definition prime2 :: "64 word" where "prime2 = 0xC2B2AE3D27D4EB4F"
definition prime3 :: "64 word" where "prime3 = 0x165667B19E3779F9"
definition prime4 :: "64 word" where "prime4 = 0x85EBCA77C2B2AE63"
definition prime5 :: "64 word" where "prime5 = 0x27D4EB2F165667C5"

definition rol :: "nat \<Rightarrow> 64 word \<Rightarrow> 64 word" where
  "rol r x = push_bit r x OR drop_bit (64 - r) x"

definition round64 :: "64 word \<Rightarrow> 64 word \<Rightarrow> 64 word" where
  "round64 acc input = rol 31 (acc + input * prime2) * prime1"

definition mergeRound :: "64 word \<Rightarrow> 64 word \<Rightarrow> 64 word" where
  "mergeRound acc val = (acc XOR round64 0 val) * prime1 + prime4"

definition uLE :: "bytes \<Rightarrow> 64 word" where
  "uLE b = foldr (\<lambda>c acc. of_char c + 256 * acc) b 0"

definition u64 :: "bytes \<Rightarrow> 64 word" where
  "u64 b = uLE (take 8 b)"

definition u32 :: "bytes \<Rightarrow> 64 word" where
  "u32 b = uLE (take 4 b)"

function stripes ::
  "64 word \<times> 64 word \<times> 64 word \<times> 64 word \<Rightarrow> bytes
     \<Rightarrow> (64 word \<times> 64 word \<times> 64 word \<times> 64 word) \<times> bytes" where
  "stripes (v1, v2, v3, v4) b =
     (if 32 \<le> length b
      then stripes (round64 v1 (u64 b), round64 v2 (u64 (drop 8 b)),
                    round64 v3 (u64 (drop 16 b)), round64 v4 (u64 (drop 24 b))) (drop 32 b)
      else ((v1, v2, v3, v4), b))"
  by pat_completeness auto
termination
  by (relation "measure (\<lambda>(v, b). length b)") auto

function tail8 :: "64 word \<Rightarrow> bytes \<Rightarrow> 64 word \<times> bytes" where
  "tail8 h b =
     (if 8 \<le> length b
      then tail8 (rol 27 (h XOR round64 0 (u64 b)) * prime1 + prime4) (drop 8 b)
      else (h, b))"
  by pat_completeness auto
termination
  by (relation "measure (\<lambda>(h, b). length b)") auto

definition tail4 :: "64 word \<Rightarrow> bytes \<Rightarrow> 64 word \<times> bytes" where
  "tail4 h b =
     (if 4 \<le> length b then (rol 23 (h XOR u32 b * prime1) * prime2 + prime3, drop 4 b)
      else (h, b))"

fun tail1 :: "64 word \<Rightarrow> bytes \<Rightarrow> 64 word" where
  "tail1 h [] = h"
| "tail1 h (c # b) = tail1 (rol 11 (h XOR of_char c * prime5) * prime1) b"

definition avalanche :: "64 word \<Rightarrow> 64 word" where
  "avalanche h0 =
     (let h1 = (h0 XOR drop_bit 33 h0) * prime2;
          h2 = (h1 XOR drop_bit 29 h1) * prime3
      in h2 XOR drop_bit 32 h2)"

definition Sum64 :: "bytes \<Rightarrow> 64 word" where
  "Sum64 b =
     (let n = length b;
          (h, b1) =
            (if 32 \<le> n then
               (case stripes (prime1 + prime2, prime2, 0, - prime1) b of
                  ((v1, v2, v3, v4), b') \<Rightarrow>
                    (mergeRound (mergeRound (mergeRound (mergeRound
                       (rol 1 v1 + rol 7 v2 + rol 12 v3 + rol 18 v4) v1) v2) v3) v4, b'))
             else (prime5, b));
          (h2, b2) = tail8 (h + of_nat n) b1;
          (h3, b3) = tail4 h2 b2
      in avalanche (tail1 h3 b3))"

section \<open>The properties in the specification's terms\<close>



text \<open>
  Content negotiation as the specification words it. The media-type tokens are the
  comma-separated pieces of all \<open>Accept\<close> values; the listed media types are what the
  tokens parse to. No \<open>Accept\<close> value: bulk; a token that does not parse: client error;
  the streaming type listed and streaming not disabled: streaming; JSON or the wildcard
  listed: bulk; else the client error "no supported content types".
\<close>

definition acceptTokens :: "string list \<Rightarrow> string list" where
  "acceptTokens acceptHeaders = concat (map (\<lambda>h. Split h CHR '','') acceptHeaders)"

definition listedTypes :: "(string \<Rightarrow> err + string) \<Rightarrow> string list \<Rightarrow> string list" where
  "listedTypes parse tokens =
     List.map_filter (\<lambda>t. case parse t of Inl e \<Rightarrow> None | Inr m \<Rightarrow> Some m) tokens"

definition negotiateSpec ::
  "('c, 'n, 'r) deps \<Rightarrow> ('c, 'n, 'r) server \<Rightarrow> string list \<Rightarrow> err + handlerFunc \<times> int" where
  "negotiateSpec d s acceptHeaders =
     (let tokens = acceptTokens acceptHeaders;
          listed = listedTypes (mime_ParseMediaType d) tokens
      in
        if acceptHeaders = [] then Inr (HandlerJSON, recordsLimit s)
        else
          (case List.find (\<lambda>t. isl (mime_ParseMediaType d t)) tokens of
             Some t \<Rightarrow> Inl (''unable to parse Accept header: '' @ projl (mime_ParseMediaType d t))
           | None \<Rightarrow>
               if mediaTypeNDJSON \<in> set listed \<and> \<not> disableNDJSON s
                 then Inr (HandlerNDJSON, streamingRecordsLimit s)
               else if mediaTypeJSON \<in> set listed \<or> mediaTypeWildcard \<in> set listed
                 then Inr (HandlerJSON, recordsLimit s)
               else Inl ''no supported content types''))"

text \<open>The body of a streamed response: every line is one marshalled record and a line feed.\<close>

definition ndjsonLines :: "bytes list \<Rightarrow> bytes" where
  "ndjsonLines bs = concat (map (\<lambda>b. b @ [CHR 0x0A]) bs)"

text \<open>
  The flags that the negotiation loops hold after they have read a list of tokens that
  all parse, in terms of the listed media types.
\<close>

definition flagsAfter :: "(string \<Rightarrow> err + string) \<Rightarrow> string list \<Rightarrow> bool \<times> bool \<Rightarrow> bool \<times> bool" where
  "flagsAfter parse tokens flags =
     (fst flags \<or> mediaTypeNDJSON \<in> set (listedTypes parse tokens),
      snd flags \<or> mediaTypeJSON \<in> set (listedTypes parse tokens)
                \<or> mediaTypeWildcard \<in> set (listedTypes parse tokens))"

section \<open>Concrete inputs\<close>

text \<open>
  Small stand-ins for the collaborators and a few requests, to evaluate the handlers on:
  a key decodes when it starts with \<open>baf\<close> and names a record when it starts with
  \<open>bafz\<close>; a record is its own canonical form, decodes unless it is empty and is valid
  for a name when it starts with the name; the record size limit is 16 bytes; a media
  type is what stands before the first semicolon, blanks in front dropped, and must not
  be empty or hold a blank; JSON is written without quotes. The hash is the real one.
\<close>

definition exParseMediaType :: "string \<Rightarrow> err + string" where
  "exParseMediaType v =
     (let t = takeWhile (\<lambda>c. c \<noteq> CHR '';'') (dropWhile (\<lambda>c. c = CHR '' '') v)
      in if t = [] \<or> CHR '' '' \<in> set t then Inl ''mime: no media type'' else Inr t)"

fun exMarshalRecord :: "record_t \<Rightarrow> bytes" where
  "exMarshalRecord (PeerRecord s i addrs) =
     ''{Schema:'' @ s @ '',ID:'' @ (case i of None \<Rightarrow> ''null'' | Some p \<Rightarrow> p) @ ''}''"
| "exMarshalRecord (UnknownRecord s b) = ''{Schema:'' @ s @ ''}''"

fun exMarshalJSON :: "json_any \<Rightarrow> err + bytes" where
  "exMarshalJSON (ProvidersResponse ps) =
     Inr (''{Providers:['' @ concat (map exMarshalRecord ps) @ '']}'')"
| "exMarshalJSON (RecordValue r) =
     (if Schema r = [] then Inl ''json: record without schema'' else Inr (exMarshalRecord r))"

definition exDeps :: "(string, string, bytes) deps" where
  "exDeps =
     \<lparr>cid_Decode = (\<lambda>v. if HasPrefix v ''baf'' then Inr v else Inl ''invalid cid''),
      ipns_NameFromCid = (\<lambda>c. if HasPrefix c ''bafz'' then Inr c else Inl ''not a libp2p key''),
      ipns_MaxRecordSize = 16,
      ipns_UnmarshalRecord = (\<lambda>b. if b = [] then Inl ''empty record'' else Inr b),
      ipns_ValidateWithName =
        (\<lambda>record name. if HasPrefix record name then None else Some ''record does not match name''),
      ipns_MarshalRecord = (\<lambda>record. Inr record),
      record_TTL = (\<lambda>record. Inr 3600),
      xxhash_Sum64 = Sum64,
      mime_ParseMediaType = exParseMediaType,
      drjson_MarshalJSONBytes = exMarshalJSON\<rparr>"

definition exPeer1 :: record_t where
  "exPeer1 = PeerRecord ''peer'' (Some ''p1'') [TypesMultiaddr ''/ip4/1.2.3.4/tcp/1'']"

definition exPeer2 :: record_t where
  "exPeer2 = PeerRecord ''peer'' (Some ''p2'') []"

definition exOther :: record_t where
  "exOther = UnknownRecord ''bitswap'' ''x''"

definition exValid :: "record_t result list" where
  "exValid = [Result exPeer1 None, Result exOther None, Result exPeer2 None]"

definition exFailing :: "record_t result list" where
  "exFailing =
     [Result exPeer1 None, Result exOther None, Result exOther (Some ''boom''),
      Result exPeer2 None]"

definition exItems :: "record_t result list" where
  "exItems =
     [Result exPeer1 None, Result exOther None, Result (UnknownRecord [] []) (Some ''boom''),
      Result (UnknownRecord ''peer'' ''y'') None, Result (PeerRecord ''other'' None []) None,
      Result exPeer2 None]"

definition exBackend :: "(string, string, bytes) ContentRouter" where
  "exBackend =
     \<lparr>FindProviders =
        (\<lambda>c limit. if c = ''bafdown'' then Inl ''backend down''
                   else if c = ''baffail'' then Inr exFailing else Inr exValid),
      FindIPNSRecord = (\<lambda>name. Inr (name @ ''-record'')),
      ProvideIPNSRecord = (\<lambda>name record. None)\<rparr>"

definition exStore :: "bytes \<Rightarrow> (string, string, bytes) ContentRouter" where
  "exStore record =
     \<lparr>FindProviders = (\<lambda>c limit. Inr []),
      FindIPNSRecord = (\<lambda>name. Inr record),
      ProvideIPNSRecord = (\<lambda>name record. None)\<rparr>"

definition exClient :: "string Client" where
  "exClient =
     \<lparr>client_FindProviders = (\<lambda>key. if key = ''bafk'' then Inr exItems else Inl ''not found'')\<rparr>"

definition exRequest :: "string \<Rightarrow> (string \<times> string list) list \<Rightarrow> bytes \<Rightarrow> Request" where
  "exRequest key hdr body =
     \<lparr>req_Header = (\<lambda>k. case map_of hdr k of None \<Rightarrow> [] | Some vs \<Rightarrow> vs),
      req_Vars = (\<lambda>v. if v = ''cid'' then key else []),
      req_Body = \<lparr>content = body, readErr = None\<rparr>\<rparr>"

definition exAcceptRequest :: Request where
  "exAcceptRequest = exRequest ''bafk'' [(''Accept'', [''text/html, application/x-ndjson;q=0.9''])] []"

definition exMalformedRequest :: Request where
  "exMalformedRequest = exRequest ''bafk'' [(''Accept'', [''application/x-ndjson,'', ''*/*''])] []"

definition exPlainRequest :: Request where
  "exPlainRequest = exRequest ''bafk'' [] []"

definition exBadKeyRequest :: Request where
  "exBadKeyRequest =
     exRequest ''zzz''
       [(''Accept'', [''application/vnd.ipfs.ipns-record'']),
        (''Content-Type'', [''application/vnd.ipfs.ipns-record''])] ''payload''"

definition exGetRequest :: Request where
  "exGetRequest = exRequest ''bafzname'' [(''Accept'', [''application/vnd.ipfs.ipns-record''])] []"

definition exPutRequest :: "bytes \<Rightarrow> Request" where
  "exPutRequest body =
     exRequest ''bafzname'' [(''Content-Type'', [''application/vnd.ipfs.ipns-record''])] body"

text \<open>
  Two different byte strings of 64 bytes with the same hash: the second differs from the
  first in its first byte and in the eight bytes from offset 32, which undo the change in
  the first accumulator.
\<close>

definition rawA :: bytes where
  "rawA = replicate 64 CHR ''a''"

definition rawB :: bytes where
  "rawB = CHR ''b'' # replicate 31 CHR ''a''
          @ [CHR 0x8a, CHR 0xa8, CHR 0x1e, CHR 0xc3, CHR 0x1d, CHR 0x0c, CHR 0xe0, CHR 0x7d]
          @ replicate 24 CHR ''a''"

section \<open>Auxiliary facts\<close>

declare formatBits.simps [simp del]

declare stripes.simps [simp del]

declare tail8.simps [simp del]

lemmas ex_defs = exDeps_def exBackend_def exRequest_def exValid_def exFailing_def exPeer1_def
  exPeer2_def exOther_def exParseMediaType_def Handler_def DefaultRecordsLimit_def
  DefaultStreamingRecordsLimit_def mediaTypeJSON_def mediaTypeNDJSON_def mediaTypeWildcard_def
  mediaTypeIPNSRecord_def Values_def Get_def

subsection \<open>The response writer\<close>

lemma writeErr_new_status:
  "rw_status (writeErr (newResponseWriter f wr) code cause) = Some code"
  by (cases wr; cases "the wr")
     (simp_all add: writeErr_def newResponseWriter_def WriteHeader_def Write_def Let_def)

lemma writeErr_new_body:
  "rw_body (writeErr (newResponseWriter f wr) code cause) =
     (if wr = Some 0 then [] else take 1024 cause)"
  by (cases wr; cases "the wr")
     (simp_all add: writeErr_def newResponseWriter_def WriteHeader_def Write_def Let_def)

lemma writeErr_new_header:
  "rw_header (writeErr (newResponseWriter f wr) code cause) key = []"
  by (cases wr; cases "the wr")
     (simp_all add: writeErr_def newResponseWriter_def WriteHeader_def Write_def Let_def)

lemma statusSent_writeErr_new:
  "statusSent (writeErr (newResponseWriter f wr) code cause) = code"
  by (simp add: statusSent_def writeErr_new_status)

lemma writeJSONResult_new:
  assumes "drjson_MarshalJSONBytes d val = Inr b"
  shows "statusSent (writeJSONResult d (newResponseWriter f None) val) = 200"
    and "rw_body (writeJSONResult d (newResponseWriter f None) val) = b"
    and "rw_header (writeJSONResult d (newResponseWriter f None) val) ''Content-Type'' = [mediaTypeJSON]"
  using assms
  by (simp_all add: writeJSONResult_def Header_Add_def newResponseWriter_def io_Copy_def
        Write_def WriteHeader_def statusSent_def StatusOK_def Let_def)

subsection \<open>Number formatting is injective\<close>

lemma distinct_digits: "distinct digits"
  by (simp add: digits_def)

lemma length_digits: "length digits = 36"
  by (simp add: digits_def)

lemma digits_nth_inj:
  "i < 36 \<Longrightarrow> j < 36 \<Longrightarrow> digits ! i = digits ! j \<Longrightarrow> i = j"
  using distinct_digits by (simp add: nth_eq_iff_index_eq length_digits)

lemma formatBits_small:
  "2 \<le> base \<Longrightarrow> base \<le> 36 \<Longrightarrow> u < base \<Longrightarrow> formatBits base u = [digits ! u]"
  by (subst formatBits.simps) simp

lemma formatBits_large:
  "2 \<le> base \<Longrightarrow> base \<le> 36 \<Longrightarrow> base \<le> u \<Longrightarrow>
   formatBits base u = formatBits base (u div base) @ [digits ! (u mod base)]"
  by (subst formatBits.simps) simp

lemma formatBits_nonempty:
  "2 \<le> base \<Longrightarrow> base \<le> 36 \<Longrightarrow> formatBits base u \<noteq> []"
  by (cases "u < base") (simp_all add: formatBits_small formatBits_large)

lemma formatBits_inj:
  assumes base: "2 \<le> base" "base \<le> 36"
  shows "formatBits base u = formatBits base v \<Longrightarrow> u = v"
proof (induction u arbitrary: v rule: less_induct)
  case (less u)
  show ?case
  proof (cases "u < base")
    case True
    note u = this
    show ?thesis
    proof (cases "v < base")
      case True
      with u less.prems base have "digits ! u = digits ! v"
        by (simp add: formatBits_small)
      with u True base show ?thesis by (intro digits_nth_inj) simp_all
    next
      case False
      with less.prems u base
      have "[digits ! u] = formatBits base (v div base) @ [digits ! (v mod base)]"
        by (simp add: formatBits_small formatBits_large)
      then have "formatBits base (v div base) = []" by simp
      with formatBits_nonempty [OF base] show ?thesis by blast
    qed
  next
    case False
    note u = this
    show ?thesis
    proof (cases "v < base")
      case True
      with less.prems u base
      have "formatBits base (u div base) @ [digits ! (u mod base)] = [digits ! v]"
        by (simp add: formatBits_small formatBits_large)
      then have "formatBits base (u div base) = []" by simp
      with formatBits_nonempty [OF base] show ?thesis by blast
    next
      case False
      with less.prems u base
      have "formatBits base (u div base) @ [digits ! (u mod base)]
              = formatBits base (v div base) @ [digits ! (v mod base)]"
        by (simp add: formatBits_large)
      then have hi: "formatBits base (u div base) = formatBits base (v div base)"
        and lo: "digits ! (u mod base) = digits ! (v mod base)" by simp_all
      from u base have "u div base < u" by simp
      then have d: "u div base = v div base" using hi by (rule less.IH)
      from base have "u mod base < 36" "v mod base < 36"
        by (simp_all add: less_le_trans [OF mod_less_divisor])
      then have m: "u mod base = v mod base" using lo by (rule digits_nth_inj)
      from d m show ?thesis by (metis div_mult_mod_eq)
    qed
  qed
qed

lemma fmt_d_2: "fmt_d 2 = ''2''"
  by (simp add: fmt_d_def formatBits_small digits_def)

lemma recordEtag_eq_iff: "recordEtag sum64 a = recordEtag sum64 b \<longleftrightarrow> sum64 a = sum64 b"
proof
  assume "recordEtag sum64 a = recordEtag sum64 b"
  then have "unat (sum64 a) = unat (sum64 b)"
    unfolding recordEtag_def FormatUint_def by (intro formatBits_inj [of 32]) simp_all
  then show "sum64 a = sum64 b" by (rule unsigned_word_eqI)
qed (simp add: recordEtag_def)

lemma recordEtag_not_injective: "\<not> inj (recordEtag sum64)"
proof
  assume "inj (recordEtag sum64)"
  then have "inj sum64"
    by (auto simp: inj_def recordEtag_eq_iff)
  then have "finite (UNIV :: bytes set)"
    by (rule finite_imageD [rotated]) simp
  then show False
    by (simp add: infinite_UNIV_listI)
qed

subsection \<open>The negotiation loops\<close>

lemma mediaTypes_distinct:
  "mediaTypeJSON \<noteq> mediaTypeNDJSON" "mediaTypeWildcard \<noteq> mediaTypeNDJSON"
  by (simp_all add: mediaTypeJSON_def mediaTypeNDJSON_def mediaTypeWildcard_def)

lemma scanAccept_eq:
  "scanAccept parse tokens flags =
     (case List.find (\<lambda>t. isl (parse t)) tokens of
        Some t \<Rightarrow> Inl (projl (parse t))
      | None \<Rightarrow> Inr (flagsAfter parse tokens flags))"
proof (induction tokens arbitrary: flags)
  case Nil
  show ?case by (simp add: flagsAfter_def listedTypes_def)
next
  case (Cons t ts)
  obtain nd js where flags: "flags = (nd, js)" by (cases flags)
  show ?case
  proof (cases "parse t")
    case (Inl e)
    then show ?thesis by (simp add: flags)
  next
    case (Inr m)
    then show ?thesis
      using mediaTypes_distinct
      by (auto simp: flags Cons.IH flagsAfter_def listedTypes_def split: option.splits)
  qed
qed

lemma find_append_list:
  "List.find P (xs @ ys) = (case List.find P xs of Some x \<Rightarrow> Some x | None \<Rightarrow> List.find P ys)"
  by (induction xs) simp_all

lemma listedTypes_append:
  "listedTypes parse (xs @ ys) = listedTypes parse xs @ listedTypes parse ys"
  by (simp add: listedTypes_def List.map_filter_def)

lemma flagsAfter_append:
  "flagsAfter parse ys (flagsAfter parse xs flags) = flagsAfter parse (xs @ ys) flags"
  by (auto simp: flagsAfter_def listedTypes_append)

lemma scanAcceptHeaders_eq:
  "scanAcceptHeaders parse hs flags =
     (case List.find (\<lambda>t. isl (parse t)) (acceptTokens hs) of
        Some t \<Rightarrow> Inl (projl (parse t))
      | None \<Rightarrow> Inr (flagsAfter parse (acceptTokens hs) flags))"
proof (induction hs arbitrary: flags)
  case Nil
  show ?case by (simp add: acceptTokens_def flagsAfter_def listedTypes_def)
next
  case (Cons h hs)
  have tok: "acceptTokens (h # hs) = Split h CHR '','' @ acceptTokens hs"
    by (simp add: acceptTokens_def)
  show ?case
    by (simp add: tok scanAccept_eq Cons.IH find_append_list flagsAfter_append
          split: option.splits)
qed

lemma negotiate_eq_spec: "negotiate d s hs = negotiateSpec d s hs"
  by (cases hs)
     (auto simp: negotiate_def negotiateSpec_def scanAcceptHeaders_eq flagsAfter_def
        Let_def split: option.splits)

subsection \<open>The discovery loops\<close>


lemma collectProviders_valid:
  "list_all (\<lambda>res. Err res = None) items \<Longrightarrow>
   collectProviders items providers i = Inr (providers @ map Val items)"
  by (induction items arbitrary: providers i) simp_all

lemma collectProviders_error:
  "k < length items \<Longrightarrow> Err (items ! k) = Some e \<Longrightarrow> \<forall>j<k. Err (items ! j) = None \<Longrightarrow>
   collectProviders items providers i = Inl (i + k, e)"
proof (induction items arbitrary: k providers i)
  case Nil
  then show ?case by simp
next
  case (Cons res rest)
  show ?case
  proof (cases k)
    case 0
    with Cons.prems show ?thesis by simp
  next
    case (Suc k')
    with Cons.prems have head: "Err res = None" by auto
    from Suc Cons.prems have "k' < length rest" "Err (rest ! k') = Some e"
      "\<forall>j<k'. Err (rest ! j) = None" by auto
    then have "collectProviders rest (providers @ [Val res]) (Suc i) = Inl (Suc i + k', e)"
      by (rule Cons.IH)
    with head Suc show ?thesis by simp
  qed
qed

lemma ndjsonLoop_until_error:
  assumes "list_all2 (\<lambda>res b. Err res = None \<and> drjson_MarshalJSONBytes d (RecordValue (Val res)) = Inr b) pre lines"
    and "Err bad = Some e"
    and "rw_writable w = None"
    and "rw_status w = Some st"
  shows "rw_status (ndjsonLoop d w (pre @ bad # rest)) = Some st
         \<and> rw_body (ndjsonLoop d w (pre @ bad # rest)) = rw_body w @ ndjsonLines lines
         \<and> rw_header (ndjsonLoop d w (pre @ bad # rest)) = rw_header w"
  using assms
proof (induction pre lines arbitrary: w rule: list_all2_induct)
  case Nil
  then show ?case by (simp add: ndjsonLines_def)
next
  case (Cons res pre b lines)
  define w2 where "w2 = Flush (w\<lparr>rw_body := rw_body w @ b @ [CHR 0x0A]\<rparr>)"
  have step: "ndjsonLoop d w (res # pre @ bad # rest) = ndjsonLoop d w2 (pre @ bad # rest)"
    using Cons.hyps(1) Cons.prems
    by (simp add: Write_def WriteHeader_def w2_def Let_def)
  have w2: "rw_writable w2 = None" "rw_status w2 = Some st"
    "rw_body w2 = rw_body w @ b @ [CHR 0x0A]" "rw_header w2 = rw_header w"
    using Cons.prems by (simp_all add: w2_def Flush_def WriteHeader_def Let_def)
  from Cons.IH [OF Cons.prems(1) w2(1) w2(2)] w2(3,4) show ?case
    by (simp add: step ndjsonLines_def del: ndjsonLoop.simps)
qed

subsection \<open>The record handlers\<close>

lemma getIPNSRecord_sets_etag:
  assumes "Contains (Get (req_Header r) ''Accept'') mediaTypeIPNSRecord"
    and "cid_Decode d (req_Vars r ''cid'') = Inr c"
    and "ipns_NameFromCid d c = Inr name"
    and "FindIPNSRecord (svc s) name = Inr record"
    and "ipns_MarshalRecord d record = Inr rawRecord"
  shows "rw_header (fst (getIPNSRecord d s w r)) ''Etag'' = [recordEtag (xxhash_Sum64 d) rawRecord]"
  using assms
  by (simp add: getIPNSRecord_def Let_def Header_Set_def Write_def WriteHeader_def
        split: sum.splits option.splits nat.splits)

lemma getIPNSRecord_writes_record:
  assumes "Contains (Get (req_Header r) ''Accept'') mediaTypeIPNSRecord"
    and "cid_Decode d (req_Vars r ''cid'') = Inr c"
    and "ipns_NameFromCid d c = Inr name"
    and "FindIPNSRecord (svc s) name = Inr record"
    and "ipns_MarshalRecord d record = Inr rawRecord"
  shows "rw_body (fst (getIPNSRecord d s (newResponseWriter f None) r)) = rawRecord"
  using assms
  by (simp add: getIPNSRecord_def Let_def Header_Set_def Write_def WriteHeader_def
        newResponseWriter_def split: sum.splits)

lemma exGet_facts:
  "Contains (Get (req_Header exGetRequest) ''Accept'') mediaTypeIPNSRecord"
  "cid_Decode exDeps (req_Vars exGetRequest ''cid'') = Inr ''bafzname''"
  "ipns_NameFromCid exDeps ''bafzname'' = Inr ''bafzname''"
  "FindIPNSRecord (svc (Handler (exStore x) [])) ''bafzname'' = Inr x"
  "ipns_MarshalRecord exDeps x = Inr x"
  "xxhash_Sum64 exDeps = Sum64"
  by (simp_all add: exGetRequest_def exRequest_def Get_def mediaTypeIPNSRecord_def exDeps_def
        Handler_def exStore_def)

subsection \<open>Values of the hash\<close>

lemma Sum64_rawA: "Sum64 rawA = 0xecdb66a0aa9322e2"
  by code_simp

lemma Sum64_rawB: "Sum64 rawB = 0xecdb66a0aa9322e2"
  by code_simp

lemma Sum64_abc: "Sum64 ''abc'' = 0x44bc2cf5ad770999"
  by code_simp

lemma Sum64_asdf: "Sum64 ''asdf'' = 0x415872f599cea71e"
  by code_simp

lemma rawA_neq_rawB: "rawA \<noteq> rawB"
  by (simp add: rawA_def rawB_def numeral_eq_Suc)

section \<open>The claims\<close>

subsection \<open>C1: a request body longer than the record size limit\<close>

text \<open>
  Claim C1 says that a PUT whose body exceeds the maximum record size is answered with
  400 and a message that the record is too long, and that the store is not called. The
  handler does not do that. For a request with an acceptable \<open>Content-Type\<close> and a key
  that decodes to a name, a body longer than the limit is cut to its first
  \<open>MaxRecordSize\<close> bytes without any error, so the branch with the message
  "provided record is too long" is not taken; the cut bytes are decoded and validated
  like any body, and when they are a valid record for the name the store is called and
  the answer is 200. Otherwise the answer is 400 with "provided record is invalid".
\<close>

theorem putIPNSRecord_oversize_not_detected:
  assumes "Contains (Get (req_Header r) ''Content-Type'') mediaTypeIPNSRecord"
    and "cid_Decode d (req_Vars r ''cid'') = Inr c"
    and "ipns_NameFromCid d c = Inr name"
    and "ipns_MaxRecordSize d < length (content (req_Body r))"
  shows "putIPNSRecord d s w r =
     (case ipns_UnmarshalRecord d (take (ipns_MaxRecordSize d) (content (req_Body r))) of
        Inl e \<Rightarrow> (writeErr w StatusBadRequest (''provided record is invalid: '' @ e), [])
      | Inr record \<Rightarrow>
          (case ipns_ValidateWithName d record name of
             Some e \<Rightarrow> (writeErr w StatusBadRequest (''provided record is invalid: '' @ e), [])
           | None \<Rightarrow>
               (case ProvideIPNSRecord (svc s) name record of
                  Some e \<Rightarrow>
                    (writeErr w StatusInternalServerError (''delegate error: '' @ e),
                     [CallProvideIPNSRecord name record])
                | None \<Rightarrow> (WriteHeader StatusOK w, [CallProvideIPNSRecord name record]))))"
  using assms
  by (simp add: putIPNSRecord_def ReadAllLimit_def split: sum.splits option.splits)

theorem putIPNSRecord_oversize_not_detected_witness:
  "ipns_MaxRecordSize exDeps < length (content (req_Body (exPutRequest ''bafzname-0123456+more'')))
   \<and> putIPNSRecord exDeps (Handler exBackend []) (newResponseWriter True None)
         (exPutRequest ''bafzname-0123456+more'')
       = (WriteHeader StatusOK (newResponseWriter True None),
          [CallProvideIPNSRecord ''bafzname'' ''bafzname-0123456''])"
proof -
  have c: "Contains (Get (req_Header (exPutRequest ''bafzname-0123456+more'')) ''Content-Type'')
             mediaTypeIPNSRecord"
    by (simp add: exPutRequest_def exRequest_def Get_def mediaTypeIPNSRecord_def)
  have k: "cid_Decode exDeps (req_Vars (exPutRequest ''bafzname-0123456+more'') ''cid'')
             = Inr ''bafzname''"
    by (simp add: exPutRequest_def exRequest_def exDeps_def)
  have n: "ipns_NameFromCid exDeps ''bafzname'' = Inr ''bafzname''"
    by (simp add: exDeps_def)
  have l: "ipns_MaxRecordSize exDeps
             < length (content (req_Body (exPutRequest ''bafzname-0123456+more'')))"
    by (simp add: exPutRequest_def exRequest_def exDeps_def)
  have t: "take (ipns_MaxRecordSize exDeps) (content (req_Body (exPutRequest ''bafzname-0123456+more'')))
             = ''bafzname-0123456''"
    by (simp add: exPutRequest_def exRequest_def exDeps_def)
  have u: "ipns_UnmarshalRecord exDeps ''bafzname-0123456'' = Inr ''bafzname-0123456''"
    by (simp add: exDeps_def)
  have v: "ipns_ValidateWithName exDeps ''bafzname-0123456'' ''bafzname'' = None"
    by (simp add: exDeps_def)
  have p: "ProvideIPNSRecord (svc (Handler exBackend [])) ''bafzname'' ''bafzname-0123456'' = None"
    by (simp add: Handler_def exBackend_def)
  show ?thesis
    using putIPNSRecord_oversize_not_detected [OF c k n l, of "Handler exBackend []"
        "newResponseWriter True None"]
    by (simp add: l t u v p)
qed

subsection \<open>C2: the channel of the adapter\<close>



subsection \<open>C3: content negotiation\<close>

text \<open>
  Claim C3. For a discovery request whose key decodes, the handler does what the
  negotiation in the specification's words (\<open>negotiateSpec\<close>) decides: a client error
  is written with status 400 and no backend call is made (this is the case of a
  media-type token that does not parse in any \<open>Accept\<close> value, and of no supported
  type); otherwise the backend is asked once, with the limit of the chosen strategy, and
  the chosen strategy writes the response: bulk with the bulk limit when there is no
  \<open>Accept\<close> value, streaming with the streaming limit when the streaming type is
  listed and streaming is not disabled, bulk when JSON or the wildcard is listed.
\<close>

theorem findProviders_content_negotiation:
  assumes "cid_Decode d (req_Vars httpReq ''cid'') = Inr c"
  shows "findProviders d s (newResponseWriter f wr) httpReq =
           (case negotiateSpec d s (Values (req_Header httpReq) ''Accept'') of
              Inl msg \<Rightarrow> (writeErr (newResponseWriter f wr) StatusBadRequest msg, [])
            | Inr (strategy, limit) \<Rightarrow>
                (case FindProviders (svc s) c limit of
                   Inl e \<Rightarrow>
                     (writeErr (newResponseWriter f wr) StatusInternalServerError
                        (''delegate error: '' @ e),
                      [CallFindProviders c limit])
                 | Inr provIter \<Rightarrow>
                     (runHandler strategy d (newResponseWriter f wr) provIter,
                      [CallFindProviders c limit])))
         \<and> (isl (negotiateSpec d s (Values (req_Header httpReq) ''Accept'')) \<longrightarrow>
              statusSent (fst (findProviders d s (newResponseWriter f wr) httpReq)) = 400
              \<and> snd (findProviders d s (newResponseWriter f wr) httpReq) = [])"
  using assms
  by (auto simp: findProviders_def negotiate_eq_spec statusSent_writeErr_new StatusBadRequest_def
        split: sum.splits)

theorem findProviders_content_negotiation_witness:
  "cid_Decode exDeps (req_Vars exAcceptRequest ''cid'') = Inr ''bafk''
   \<and> negotiateSpec exDeps (Handler exBackend []) (Values (req_Header exAcceptRequest) ''Accept'')
       = Inr (HandlerNDJSON, 0)
   \<and> findProviders exDeps (Handler exBackend []) (newResponseWriter True None) exAcceptRequest
       = (runHandler HandlerNDJSON exDeps (newResponseWriter True None) exValid,
          [CallFindProviders ''bafk'' 0])
   \<and> cid_Decode exDeps (req_Vars exMalformedRequest ''cid'') = Inr ''bafk''
   \<and> negotiateSpec exDeps (Handler exBackend []) (Values (req_Header exMalformedRequest) ''Accept'')
       = Inl ''unable to parse Accept header: mime: no media type''
   \<and> statusSent (fst (findProviders exDeps (Handler exBackend []) (newResponseWriter True None)
         exMalformedRequest)) = 400
   \<and> snd (findProviders exDeps (Handler exBackend []) (newResponseWriter True None)
         exMalformedRequest) = []"
proof -
  have k: "cid_Decode exDeps (req_Vars exAcceptRequest ''cid'') = Inr ''bafk''"
    by (simp add: exAcceptRequest_def exRequest_def exDeps_def)
  have n: "negotiateSpec exDeps (Handler exBackend []) (Values (req_Header exAcceptRequest) ''Accept'')
             = Inr (HandlerNDJSON, 0)"
    by (simp add: negotiateSpec_def acceptTokens_def listedTypes_def exAcceptRequest_def ex_defs
          Let_def)
  have b: "FindProviders (svc (Handler exBackend [])) ''bafk'' 0 = Inr exValid"
    by (simp add: Handler_def exBackend_def)
  have k': "cid_Decode exDeps (req_Vars exMalformedRequest ''cid'') = Inr ''bafk''"
    by (simp add: exMalformedRequest_def exRequest_def exDeps_def)
  have n': "negotiateSpec exDeps (Handler exBackend []) (Values (req_Header exMalformedRequest) ''Accept'')
             = Inl ''unable to parse Accept header: mime: no media type''"
    by (simp add: negotiateSpec_def acceptTokens_def listedTypes_def exMalformedRequest_def ex_defs
          Let_def)
  have first: "findProviders exDeps (Handler exBackend []) (newResponseWriter True None) exAcceptRequest
       = (runHandler HandlerNDJSON exDeps (newResponseWriter True None) exValid,
          [CallFindProviders ''bafk'' 0])"
    using findProviders_content_negotiation [OF k, of "Handler exBackend []" True None]
    by (simp add: n b)
  have second: "statusSent (fst (findProviders exDeps (Handler exBackend []) (newResponseWriter True None)
         exMalformedRequest)) = 400
   \<and> snd (findProviders exDeps (Handler exBackend []) (newResponseWriter True None)
         exMalformedRequest) = []"
    using findProviders_content_negotiation [OF k', of "Handler exBackend []" True None,
        THEN conjunct2]
    by (simp add: n')
  from k n first k' n' second show ?thesis by simp
qed

subsection \<open>C4: the bulk response\<close>

text \<open>
  Claim C4. For a key that decodes, no \<open>Accept\<close> value, and a backend sequence of
  \<open>N\<close> items none of which carries an error, the handler asks the backend once with
  the bulk limit and answers 200 with content type JSON; the body is the marshalling of
  the one response object whose \<open>Providers\<close> list is the \<open>N\<close> values in the order of
  the sequence (the marshaller accepting the object, the connection the write).
\<close>

theorem findProviders_bulk_all_records:
  assumes "cid_Decode d (req_Vars httpReq ''cid'') = Inr c"
    and "Values (req_Header httpReq) ''Accept'' = []"
    and "FindProviders (svc s) c (recordsLimit s) = Inr provIter"
    and "list_all (\<lambda>res. Err res = None) provIter"
    and "drjson_MarshalJSONBytes d (ProvidersResponse (map Val provIter)) = Inr b"
  shows "snd (findProviders d s (newResponseWriter f None) httpReq)
           = [CallFindProviders c (recordsLimit s)]
         \<and> statusSent (fst (findProviders d s (newResponseWriter f None) httpReq)) = 200
         \<and> rw_header (fst (findProviders d s (newResponseWriter f None) httpReq)) ''Content-Type''
             = [mediaTypeJSON]
         \<and> rw_body (fst (findProviders d s (newResponseWriter f None) httpReq)) = b
         \<and> length (Providers (ProvidersResponse (map Val provIter))) = length provIter"
proof -
  have "findProviders d s (newResponseWriter f None) httpReq =
          (writeJSONResult d (newResponseWriter f None) (ProvidersResponse (map Val provIter)),
           [CallFindProviders c (recordsLimit s)])"
    using assms(1-4)
    by (simp add: findProviders_def negotiate_def runHandler_def findProvidersJSON_def
          collectProviders_valid)
  with writeJSONResult_new [OF assms(5)] show ?thesis by simp
qed

theorem findProviders_bulk_all_records_witness:
  "Values (req_Header exPlainRequest) ''Accept'' = []
   \<and> list_all (\<lambda>res. Err res = None) exValid
   \<and> snd (findProviders exDeps (Handler exBackend []) (newResponseWriter False None) exPlainRequest)
       = [CallFindProviders ''bafk'' 20]
   \<and> statusSent (fst (findProviders exDeps (Handler exBackend []) (newResponseWriter False None)
         exPlainRequest)) = 200
   \<and> rw_body (fst (findProviders exDeps (Handler exBackend []) (newResponseWriter False None)
         exPlainRequest))
       = ''{Providers:[{Schema:peer,ID:p1}{Schema:bitswap}{Schema:peer,ID:p2}]}''"
proof -
  have k: "cid_Decode exDeps (req_Vars exPlainRequest ''cid'') = Inr ''bafk''"
    by (simp add: exPlainRequest_def exRequest_def exDeps_def)
  have a: "Values (req_Header exPlainRequest) ''Accept'' = []"
    by (simp add: exPlainRequest_def exRequest_def Values_def)
  have b: "FindProviders (svc (Handler exBackend [])) ''bafk'' (recordsLimit (Handler exBackend []))
             = Inr exValid"
    by (simp add: Handler_def exBackend_def)
  have v: "list_all (\<lambda>res. Err res = None) exValid"
    by (simp add: exValid_def)
  have m: "drjson_MarshalJSONBytes exDeps (ProvidersResponse (map Val exValid))
             = Inr ''{Providers:[{Schema:peer,ID:p1}{Schema:bitswap}{Schema:peer,ID:p2}]}''"
    by (simp add: exDeps_def exValid_def exPeer1_def exPeer2_def exOther_def)
  have l: "recordsLimit (Handler exBackend []) = 20"
    by (simp add: Handler_def DefaultRecordsLimit_def)
  show ?thesis
    using findProviders_bulk_all_records [OF k a b v m, of False]
    by (simp add: a v l)
qed

subsection \<open>C5: an error item in the bulk strategy\<close>

text \<open>
  Claim C5. In the bulk strategy, when the item at 0-based position \<open>k\<close> carries an
  error and no earlier item does, the handler does nothing to the response writer but
  \<open>writeErr\<close> with status 500 and the message "delegate error on result k: " followed
  by the error: on a fresh writer the status is 500, the body is that message (cut to
  1024 bytes) and nothing else, and no JSON content type was set.
\<close>

theorem findProvidersJSON_error_at_index:
  assumes "k < length provIter"
    and "Err (provIter ! k) = Some e"
    and "\<forall>j<k. Err (provIter ! j) = None"
  shows "findProvidersJSON d w provIter =
           writeErr w StatusInternalServerError
             (''delegate error on result '' @ fmt_d (int k) @ '': '' @ e)
         \<and> rw_status (findProvidersJSON d (newResponseWriter f None) provIter) = Some 500
         \<and> rw_body (findProvidersJSON d (newResponseWriter f None) provIter) =
             take 1024 (''delegate error on result '' @ fmt_d (int k) @ '': '' @ e)
         \<and> rw_header (findProvidersJSON d (newResponseWriter f None) provIter) ''Content-Type'' = []"
proof -
  have "collectProviders provIter [] 0 = Inl (0 + k, e)"
    using assms by (rule collectProviders_error)
  then have eq: "findProvidersJSON d w provIter =
           writeErr w StatusInternalServerError
             (''delegate error on result '' @ fmt_d (int k) @ '': '' @ e)" for w
    by (simp add: findProvidersJSON_def)
  show ?thesis
    by (simp add: eq writeErr_new_status writeErr_new_body writeErr_new_header
          StatusInternalServerError_def)
qed

theorem findProvidersJSON_error_at_index_witness:
  "Err (exFailing ! 2) = Some ''boom''
   \<and> Err (exFailing ! 0) = None
   \<and> Err (exFailing ! 1) = None
   \<and> rw_status (findProvidersJSON exDeps (newResponseWriter False None) exFailing) = Some 500
   \<and> rw_body (findProvidersJSON exDeps (newResponseWriter False None) exFailing)
       = ''delegate error on result 2: boom''"
proof -
  have l: "2 < length exFailing"
    by (simp add: exFailing_def)
  have e: "Err (exFailing ! 2) = Some ''boom''"
    by (simp add: exFailing_def)
  have p: "\<forall>j<2. Err (exFailing ! j) = None"
    by (simp add: exFailing_def less_Suc_eq numeral_2_eq_2)
  show ?thesis
    using findProvidersJSON_error_at_index [OF l e p, of exDeps "newResponseWriter False None" False,
        THEN conjunct2]
    by (simp add: e fmt_d_2 exFailing_def)
qed

subsection \<open>C6: an error item in the streaming strategy\<close>

text \<open>
  Claim C6. In the streaming strategy, when an item carries an error and the items
  before it are values that marshal, the response has the status 200 committed at the
  start and the streaming content type, and its body is exactly the lines of the items
  before the error, each the marshalled record followed by a line feed: nothing is
  written for the error item or for any item after it.
\<close>

theorem findProvidersNDJSON_error_ends_stream:
  assumes "list_all2 (\<lambda>res b. Err res = None \<and> drjson_MarshalJSONBytes d (RecordValue (Val res)) = Inr b) pre lines"
    and "Err bad = Some e"
  shows "rw_status (findProvidersNDJSON d (newResponseWriter f None) (pre @ bad # rest)) = Some 200
         \<and> rw_body (findProvidersNDJSON d (newResponseWriter f None) (pre @ bad # rest))
             = ndjsonLines lines
         \<and> rw_header (findProvidersNDJSON d (newResponseWriter f None) (pre @ bad # rest))
             ''Content-Type'' = [mediaTypeNDJSON]"
proof -
  define w0 where
    "w0 = WriteHeader StatusOK (Header_Set ''Content-Type'' mediaTypeNDJSON (newResponseWriter f None))"
  have w0: "rw_writable w0 = None" "rw_status w0 = Some 200" "rw_body w0 = []"
    "rw_header w0 ''Content-Type'' = [mediaTypeNDJSON]"
    by (simp_all add: w0_def WriteHeader_def Header_Set_def newResponseWriter_def StatusOK_def)
  from ndjsonLoop_until_error [OF assms w0(1) w0(2), of rest] w0(3,4) show ?thesis
    by (simp add: findProvidersNDJSON_def w0_def [symmetric])
qed

theorem findProvidersNDJSON_error_ends_stream_witness:
  "rw_status (findProvidersNDJSON exDeps (newResponseWriter True None) exFailing) = Some 200
   \<and> rw_body (findProvidersNDJSON exDeps (newResponseWriter True None) exFailing)
       = ''{Schema:peer,ID:p1}'' @ [CHR 0x0A] @ ''{Schema:bitswap}'' @ [CHR 0x0A]
   \<and> rw_header (findProvidersNDJSON exDeps (newResponseWriter True None) exFailing)
         ''Content-Type'' = [''application/x-ndjson'']"
proof -
  have s: "exFailing = [Result exPeer1 None, Result exOther None]
             @ Result exOther (Some ''boom'') # [Result exPeer2 None]"
    by (simp add: exFailing_def)
  have m: "list_all2 (\<lambda>res b. Err res = None
              \<and> drjson_MarshalJSONBytes exDeps (RecordValue (Val res)) = Inr b)
             [Result exPeer1 None, Result exOther None]
             [''{Schema:peer,ID:p1}'', ''{Schema:bitswap}'']"
    by (simp add: exDeps_def exPeer1_def exOther_def)
  have e: "Err (Result exOther (Some ''boom'')) = Some ''boom''"
    by simp
  show ?thesis
    using findProvidersNDJSON_error_ends_stream [OF m e, of True "[Result exPeer2 None]"]
    by (simp add: s ndjsonLines_def mediaTypeNDJSON_def)
qed

subsection \<open>C7: a key that does not decode\<close>

text \<open>
  Claim C7. When the path key does not decode, each of the three handlers answers 400
  and calls no backend method; for the two record handlers the \<open>Accept\<close> value, or the
  \<open>Content-Type\<close> value, is taken to include the record media type.
\<close>

theorem malformed_key_rejected:
  assumes "cid_Decode d (req_Vars r1 ''cid'') = Inl e1"
    and "cid_Decode d (req_Vars r2 ''cid'') = Inl e2"
    and "Contains (Get (req_Header r2) ''Accept'') mediaTypeIPNSRecord"
    and "cid_Decode d (req_Vars r3 ''cid'') = Inl e3"
    and "Contains (Get (req_Header r3) ''Content-Type'') mediaTypeIPNSRecord"
  shows "statusSent (fst (findProviders d s (newResponseWriter f wr) r1)) = 400
         \<and> snd (findProviders d s (newResponseWriter f wr) r1) = []
         \<and> statusSent (fst (getIPNSRecord d s (newResponseWriter f wr) r2)) = 400
         \<and> snd (getIPNSRecord d s (newResponseWriter f wr) r2) = []
         \<and> statusSent (fst (putIPNSRecord d s (newResponseWriter f wr) r3)) = 400
         \<and> snd (putIPNSRecord d s (newResponseWriter f wr) r3) = []"
  using assms
  by (simp add: findProviders_def getIPNSRecord_def putIPNSRecord_def statusSent_writeErr_new
        StatusBadRequest_def)

theorem malformed_key_rejected_witness:
  "cid_Decode exDeps (req_Vars exBadKeyRequest ''cid'') = Inl ''invalid cid''
   \<and> statusSent (fst (findProviders exDeps (Handler exBackend []) (newResponseWriter True None)
         exBadKeyRequest)) = 400
   \<and> snd (findProviders exDeps (Handler exBackend []) (newResponseWriter True None)
         exBadKeyRequest) = []
   \<and> statusSent (fst (getIPNSRecord exDeps (Handler exBackend []) (newResponseWriter True None)
         exBadKeyRequest)) = 400
   \<and> snd (getIPNSRecord exDeps (Handler exBackend []) (newResponseWriter True None)
         exBadKeyRequest) = []
   \<and> statusSent (fst (putIPNSRecord exDeps (Handler exBackend []) (newResponseWriter True None)
         exBadKeyRequest)) = 400
   \<and> snd (putIPNSRecord exDeps (Handler exBackend []) (newResponseWriter True None)
         exBadKeyRequest) = []"
proof -
  have k: "cid_Decode exDeps (req_Vars exBadKeyRequest ''cid'') = Inl ''invalid cid''"
    by (simp add: exBadKeyRequest_def exRequest_def exDeps_def)
  have a: "Contains (Get (req_Header exBadKeyRequest) ''Accept'') mediaTypeIPNSRecord"
    by (simp add: exBadKeyRequest_def exRequest_def Get_def mediaTypeIPNSRecord_def)
  have c: "Contains (Get (req_Header exBadKeyRequest) ''Content-Type'') mediaTypeIPNSRecord"
    by (simp add: exBadKeyRequest_def exRequest_def Get_def mediaTypeIPNSRecord_def)
  show ?thesis
    using malformed_key_rejected [OF k k a k c, of "Handler exBackend []" True None]
    by (simp add: k)
qed

subsection \<open>C8: a record that does not validate\<close>

text \<open>
  Claim C8. When the body of a PUT decodes into a record and the record fails
  validation against the name derived from the key, the handler answers 400, the body
  of the answer is "provided record is invalid: " followed by the validator's reason
  (cut to 1024 bytes; empty when the connection refuses the write), and the store is
  not called.
\<close>

theorem putIPNSRecord_invalid_record_rejected:
  assumes "Contains (Get (req_Header r) ''Content-Type'') mediaTypeIPNSRecord"
    and "cid_Decode d (req_Vars r ''cid'') = Inr c"
    and "ipns_NameFromCid d c = Inr name"
    and "ReadAllLimit (req_Body r) (ipns_MaxRecordSize d) = Inr rawRecord"
    and "ipns_UnmarshalRecord d rawRecord = Inr record"
    and "ipns_ValidateWithName d record name = Some e"
  shows "putIPNSRecord d s w r =
           (writeErr w StatusBadRequest (''provided record is invalid: '' @ e), [])
         \<and> statusSent (fst (putIPNSRecord d s (newResponseWriter f wr) r)) = 400
         \<and> rw_body (fst (putIPNSRecord d s (newResponseWriter f wr) r)) =
             (if wr = Some 0 then [] else take 1024 (''provided record is invalid: '' @ e))
         \<and> snd (putIPNSRecord d s (newResponseWriter f wr) r) = []"
  using assms
  by (simp add: putIPNSRecord_def statusSent_writeErr_new writeErr_new_body StatusBadRequest_def)

theorem putIPNSRecord_invalid_record_rejected_witness:
  "ipns_UnmarshalRecord exDeps ''other-record'' = Inr ''other-record''
   \<and> ipns_ValidateWithName exDeps ''other-record'' ''bafzname'' = Some ''record does not match name''
   \<and> statusSent (fst (putIPNSRecord exDeps (Handler exBackend []) (newResponseWriter True None)
         (exPutRequest ''other-record''))) = 400
   \<and> rw_body (fst (putIPNSRecord exDeps (Handler exBackend []) (newResponseWriter True None)
         (exPutRequest ''other-record'')))
       = ''provided record is invalid: record does not match name''
   \<and> snd (putIPNSRecord exDeps (Handler exBackend []) (newResponseWriter True None)
         (exPutRequest ''other-record'')) = []"
proof -
  have c: "Contains (Get (req_Header (exPutRequest ''other-record'')) ''Content-Type'')
             mediaTypeIPNSRecord"
    by (simp add: exPutRequest_def exRequest_def Get_def mediaTypeIPNSRecord_def)
  have k: "cid_Decode exDeps (req_Vars (exPutRequest ''other-record'') ''cid'') = Inr ''bafzname''"
    by (simp add: exPutRequest_def exRequest_def exDeps_def)
  have n: "ipns_NameFromCid exDeps ''bafzname'' = Inr ''bafzname''"
    by (simp add: exDeps_def)
  have r: "ReadAllLimit (req_Body (exPutRequest ''other-record'')) (ipns_MaxRecordSize exDeps)
             = Inr ''other-record''"
    by (simp add: exPutRequest_def exRequest_def exDeps_def ReadAllLimit_def)
  have u: "ipns_UnmarshalRecord exDeps ''other-record'' = Inr ''other-record''"
    by (simp add: exDeps_def)
  have v: "ipns_ValidateWithName exDeps ''other-record'' ''bafzname''
             = Some ''record does not match name''"
    by (simp add: exDeps_def)
  show ?thesis
    using putIPNSRecord_invalid_record_rejected [OF c k n r u v, of "Handler exBackend []"
        "newResponseWriter True None" True None, THEN conjunct2]
    by (simp add: u v)
qed

subsection \<open>C9: the entity tag\<close>

text \<open>
  Claim C9 says that equal canonical bytes give equal entity tags and that different
  canonical bytes give different ones. The second half fails: the tag is the 64-bit hash
  of the bytes in base 32, and the two records \<open>rawA\<close> and \<open>rawB\<close> are different,
  are both served as they are, and get the same tag. No 64-bit hash could do better
  (\<open>recordEtag_not_injective\<close>).
\<close>

theorem etag_collision_counterexample:
  "rawA \<noteq> rawB
   \<and> rw_body (fst (getIPNSRecord exDeps (Handler (exStore rawA) []) (newResponseWriter True None)
         exGetRequest)) = rawA
   \<and> rw_body (fst (getIPNSRecord exDeps (Handler (exStore rawB) []) (newResponseWriter True None)
         exGetRequest)) = rawB
   \<and> rw_header (fst (getIPNSRecord exDeps (Handler (exStore rawA) []) (newResponseWriter True None)
         exGetRequest)) ''Etag''
       = rw_header (fst (getIPNSRecord exDeps (Handler (exStore rawB) []) (newResponseWriter True None)
         exGetRequest)) ''Etag''"
proof -
  have body: "rw_body (fst (getIPNSRecord exDeps (Handler (exStore x) [])
                (newResponseWriter True None) exGetRequest)) = x" for x
    using exGet_facts(1-5) by (rule getIPNSRecord_writes_record)
  have etag: "rw_header (fst (getIPNSRecord exDeps (Handler (exStore x) [])
                (newResponseWriter True None) exGetRequest)) ''Etag''
              = [recordEtag (xxhash_Sum64 exDeps) x]" for x
    using exGet_facts(1-5) by (rule getIPNSRecord_sets_etag)
  have "recordEtag Sum64 rawA = recordEtag Sum64 rawB"
    by (simp add: recordEtag_def Sum64_rawA Sum64_rawB)
  with rawA_neq_rawB show ?thesis by (simp add: body etag exGet_facts(6))
qed

text \<open>
  Claim C9 as amended. The entity tag that a successful GET sets is the base-32 text of
  the hash of the canonical bytes: equal canonical bytes give equal tags, and two GETs
  give equal tags exactly when the hashes of their canonical bytes are equal (different
  tags always mean different bytes; different bytes with colliding hashes share a tag).
\<close>

theorem getIPNSRecord_etag_tracks_hash:
  assumes "Contains (Get (req_Header r) ''Accept'') mediaTypeIPNSRecord"
    and "cid_Decode d (req_Vars r ''cid'') = Inr c"
    and "ipns_NameFromCid d c = Inr name"
    and "FindIPNSRecord (svc s1) name = Inr record1"
    and "ipns_MarshalRecord d record1 = Inr raw1"
    and "FindIPNSRecord (svc s2) name = Inr record2"
    and "ipns_MarshalRecord d record2 = Inr raw2"
  shows "rw_header (fst (getIPNSRecord d s1 w r)) ''Etag'' = [FormatUint (xxhash_Sum64 d raw1) 32]
         \<and> rw_header (fst (getIPNSRecord d s2 w r)) ''Etag'' = [FormatUint (xxhash_Sum64 d raw2) 32]
         \<and> (raw1 = raw2 \<longrightarrow>
              rw_header (fst (getIPNSRecord d s1 w r)) ''Etag''
                = rw_header (fst (getIPNSRecord d s2 w r)) ''Etag'')
         \<and> (rw_header (fst (getIPNSRecord d s1 w r)) ''Etag''
              = rw_header (fst (getIPNSRecord d s2 w r)) ''Etag''
            \<longleftrightarrow> xxhash_Sum64 d raw1 = xxhash_Sum64 d raw2)"
proof -
  have e1: "rw_header (fst (getIPNSRecord d s1 w r)) ''Etag'' = [recordEtag (xxhash_Sum64 d) raw1]"
    using assms(1-5) by (rule getIPNSRecord_sets_etag)
  have e2: "rw_header (fst (getIPNSRecord d s2 w r)) ''Etag'' = [recordEtag (xxhash_Sum64 d) raw2]"
    using assms(1-3,6,7) by (rule getIPNSRecord_sets_etag)
  show ?thesis
    unfolding e1 e2 by (simp add: recordEtag_eq_iff) (simp add: recordEtag_def)
qed

theorem getIPNSRecord_etag_tracks_hash_witness:
  "xxhash_Sum64 exDeps ''abc'' \<noteq> xxhash_Sum64 exDeps ''asdf''
   \<and> rw_header (fst (getIPNSRecord exDeps (Handler (exStore ''abc'') []) (newResponseWriter True None)
         exGetRequest)) ''Etag''
     \<noteq> rw_header (fst (getIPNSRecord exDeps (Handler (exStore ''asdf'') []) (newResponseWriter True None)
         exGetRequest)) ''Etag''"
proof -
  have h: "xxhash_Sum64 exDeps ''abc'' \<noteq> xxhash_Sum64 exDeps ''asdf''"
    by (simp add: exGet_facts(6) Sum64_abc Sum64_asdf)
  note t = getIPNSRecord_etag_tracks_hash [OF exGet_facts(1-3)
        exGet_facts(4) [of "''abc''"] exGet_facts(5) [of "''abc''"]
        exGet_facts(4) [of "''asdf''"] exGet_facts(5) [of "''asdf''"],
        where w = "newResponseWriter True None"]
  from t [THEN conjunct2, THEN conjunct2, THEN conjunct2] h show ?thesis
    by blast
qed

subsection \<open>C10: the result count of the adapter\<close>

text \<open>
  Claim C10. \<open>FindProvidersAsync\<close> ignores \<open>numResults\<close>: two calls that differ only in
  it make the same call on the client and give the same channel trace, and the one call
  made on the client carries the key and no count.
\<close>

theorem FindProvidersAsync_ignores_numResults:
  "FindProvidersAsync c key n1 = FindProvidersAsync c key n2 \<and>
   fst (FindProvidersAsync c key n1) = [ClientFindProviders key]"
  by (simp add: FindProvidersAsync_def split: sum.splits)

theorem FindProvidersAsync_ignores_numResults_witness:
  "FindProvidersAsync exClient ''bafk'' 1 = FindProvidersAsync exClient ''bafk'' 50 \<and>
   FindProvidersAsync exClient ''bafk'' 50 =
     ([ClientFindProviders ''bafk''],
      [Send (AddrInfo ''p1'' [''/ip4/1.2.3.4/tcp/1'']), Send (AddrInfo ''p2'' []),
       IterClose, ChanClose])"
proof -
  have e: "FindProvidersAsync exClient ''bafk'' 50 =
     ([ClientFindProviders ''bafk''],
      [Send (AddrInfo ''p1'' [''/ip4/1.2.3.4/tcp/1'']), Send (AddrInfo ''p2'' []),
       IterClose, ChanClose])"
    by (simp add: FindProvidersAsync_def exClient_def exItems_def exPeer1_def exPeer2_def
          exOther_def GetSchema_def SchemaPeer_def)
  show ?thesis
    using FindProvidersAsync_ignores_numResults [of exClient "''bafk''" 1 50, THEN conjunct1] e
    by (intro conjI) assumption+
qed

end
